theory Spec2Isabelle
  imports Complex_Main
begin

section \<open>The JSON-to-PDF tool of Reactive Resume (tools/json-to-pdf.ts)\<close>

text \<open>
  The tool is a script: it parses its command line, reads a resume payload, merges the
  command-line overrides into the payload's metadata, starts a Vite development server,
  acquires a browser, renders the preview page, runs a geometry pass inside the page and
  prints the page to a PDF file. The model follows the script from top to bottom. What the
  script receives from outside (the environment variables, the file system, the events of
  the child process, the outcome of each awaited browser call, the DOM the page has
  rendered) is a field of the record \<open>sys\<close>; what the script does to the outside (the
  processes it starts and stops, the call to \<open>page.pdf\<close>, the file it writes) is a field
  of the record \<open>outcome\<close>.

  JavaScript numbers are modelled by rationals, and \<open>NaN\<close> by \<open>None\<close> where a value can
  be \<open>NaN\<close>; infinities and the rounding of doubles are outside the model.
\<close>

subsection \<open>Constants\<close>

record dimensions =
  width :: int
  height :: int

text \<open>\<open>PAGE_DIMENSIONS\<close>, as a table of its own properties.\<close>

definition PAGE_DIMENSIONS :: "(string \<times> dimensions) list" where
  "PAGE_DIMENSIONS =
    [(''a4'', \<lparr>width = 794, height = 1123\<rparr>),
     (''letter'', \<lparr>width = 816, height = 1056\<rparr>),
     (''free-form'', \<lparr>width = 794, height = 1123\<rparr>)]"

definition PRINT_MARGIN_TEMPLATES :: "string list" where
  "PRINT_MARGIN_TEMPLATES =
    [''azurill'', ''bronzor'', ''kakuna'', ''lapras'', ''onyx'', ''pikachu'', ''rhyhorn'']"

definition VALID_TEMPLATES :: "string list" where
  "VALID_TEMPLATES =
    [''azurill'', ''bronzor'', ''chikorita'', ''ditgar'', ''ditto'',
     ''gengar'', ''glalie'', ''kakuna'', ''lapras'', ''leafish'',
     ''onyx'', ''pikachu'', ''rhyhorn'']"

definition VALID_FORMATS :: "string list" where
  "VALID_FORMATS = [''a4'', ''letter'', ''free-form'']"

text \<open>
  \<open>PAGE_DIMENSIONS\<close> is a plain object, so a lookup by a name it does not have itself
  goes on to \<open>Object.prototype\<close>. These are the names that every plain object inherits
  from there (Annex B of ECMAScript included); each of them yields a function, or
  \<open>Object.prototype\<close> itself for \<open>__proto__\<close>: a value that is not nullish and has neither
  a \<open>width\<close> nor a \<open>height\<close>.
\<close>

definition OBJECT_PROTOTYPE_KEYS :: "string list" where
  "OBJECT_PROTOTYPE_KEYS =
    [''constructor'', ''__defineGetter__'', ''__defineSetter__'', ''hasOwnProperty'',
     ''__lookupGetter__'', ''__lookupSetter__'', ''isPrototypeOf'', ''propertyIsEnumerable'',
     ''toString'', ''valueOf'', ''__proto__'', ''toLocaleString'']"

text \<open>
  \<open>PAGE_DIMENSIONS[format] ?? PAGE_DIMENSIONS.a4\<close>: the entry of the table for one of its
  own names; for an inherited name the inherited value, \<open>None\<close> here, whose \<open>width\<close> and
  \<open>height\<close> are \<open>undefined\<close>; for every other name the lookup is \<open>undefined\<close> and the
  result is \<open>PAGE_DIMENSIONS.a4\<close>.
\<close>

definition dimensions_of :: "string \<Rightarrow> dimensions option" where
  "dimensions_of fmt =
    (case map_of PAGE_DIMENSIONS fmt of
       Some d \<Rightarrow> Some d
     | None \<Rightarrow> if fmt \<in> set OBJECT_PROTOTYPE_KEYS then None else map_of PAGE_DIMENSIONS ''a4'')"

subsection \<open>The payload\<close>

text \<open>
  The script reads three places of the payload: \<open>metadata.template\<close>,
  \<open>metadata.page.format\<close> and \<open>metadata.page.marginX\<close>/\<open>marginY\<close>. Each is optional:
  \<open>None\<close> is a property that is absent or \<open>null\<close>. A property that is present has the
  type of the resume schema (a string, a number, an object).
\<close>

record page_settings =
  page_format :: "string option"
  page_marginX :: "rat option"
  page_marginY :: "rat option"

record metadata =
  meta_template :: "string option"
  meta_page :: "page_settings option"

record resume =
  resume_metadata :: "metadata option"

subsection \<open>Margins (lines 354 to 360)\<close>

text \<open>\<open>Math.round\<close> rounds to the nearest integer, a half towards plus infinity.\<close>

definition Math_round :: "rat \<Rightarrow> int" where
  "Math_round x = \<lfloor>x + 1 / 2\<rfloor>"

text \<open>\<open>pageSettings?.marginX ?? 14\<close> and \<open>pageSettings?.marginY ?? 12\<close>\<close>

definition raw_marginX :: "page_settings option \<Rightarrow> rat" where
  "raw_marginX pageSettings =
    (case pageSettings of
       None \<Rightarrow> 14
     | Some p \<Rightarrow> (case page_marginX p of None \<Rightarrow> 14 | Some v \<Rightarrow> v))"

definition raw_marginY :: "page_settings option \<Rightarrow> rat" where
  "raw_marginY pageSettings =
    (case pageSettings of
       None \<Rightarrow> 12
     | Some p \<Rightarrow> (case page_marginY p of None \<Rightarrow> 12 | Some v \<Rightarrow> v))"

text \<open>The pair \<open>(marginX, marginY)\<close> after the \<open>if\<close> of line 357.\<close>

definition margins :: "string \<Rightarrow> page_settings option \<Rightarrow> int \<times> int" where
  "margins template pageSettings =
    (if template \<in> set PRINT_MARGIN_TEMPLATES
     then (Math_round (raw_marginX pageSettings / (3 / 4)),
           Math_round (raw_marginY pageSettings / (3 / 4)))
     else (0, 0))"

subsection \<open>Command line, input and output paths (lines 129 to 154)\<close>

text \<open>The result of \<open>parseArgs\<close>: \<open>values.help\<close>, \<open>positionals\<close>, \<open>values.template\<close>,
  \<open>values.format\<close> (\<open>None\<close> is \<open>undefined\<close>).\<close>

record cli =
  help_flag :: bool
  positionals :: "string list"
  template_opt :: "string option"
  format_opt :: "string option"

text \<open>A string option in a condition: \<open>undefined\<close> and the empty string are falsy.\<close>

definition truthy :: "string option \<Rightarrow> bool" where
  "truthy v = (case v of None \<Rightarrow> False | Some s \<Rightarrow> s \<noteq> [])"

text \<open>
  The regular expression \<open>/\.json$/i\<close> on a string of five characters: a dot, then the
  letters of \<open>json\<close>, each in either case.
\<close>

definition matches_dot_json :: "string \<Rightarrow> bool" where
  "matches_dot_json t =
    (case t of
       [c0, c1, c2, c3, c4] \<Rightarrow>
         c0 = CHR ''.'' \<and> (c1 = CHR ''j'' \<or> c1 = CHR ''J'') \<and> (c2 = CHR ''s'' \<or> c2 = CHR ''S'')
         \<and> (c3 = CHR ''o'' \<or> c3 = CHR ''O'') \<and> (c4 = CHR ''n'' \<or> c4 = CHR ''N'')
     | _ \<Rightarrow> False)"

text \<open>\<open>s.replace(/\.json$/i, ".pdf")\<close>: the pattern is anchored at the end of the string.\<close>

definition replace_json_ext :: "string \<Rightarrow> string" where
  "replace_json_ext s =
    (let n = length s in
     if 5 \<le> n \<and> matches_dot_json (drop (n - 5) s) then take (n - 5) s @ ''.pdf'' else s)"

text \<open>\<open>resolve\<close> of \<open>node:path\<close> is a parameter; \<open>p0\<close> is \<open>positionals[0]\<close> and \<open>rest\<close> the
  positionals after it.\<close>

definition inputPath :: "(string \<Rightarrow> string) \<Rightarrow> string \<Rightarrow> string" where
  "inputPath resolve p0 = resolve p0"

definition outputPath :: "(string \<Rightarrow> string) \<Rightarrow> string \<Rightarrow> string list \<Rightarrow> string" where
  "outputPath resolve p0 rest =
    resolve (case rest of p1 # _ \<Rightarrow> p1 | [] \<Rightarrow> replace_json_ext p0)"

subsection \<open>Overrides and effective settings (lines 172 to 187)\<close>

definition apply_overrides :: "cli \<Rightarrow> resume \<Rightarrow> resume" where
  "apply_overrides args resumeData =
    (case resume_metadata resumeData of
       None \<Rightarrow> resumeData
     | Some m \<Rightarrow>
         let m1 = (if truthy (template_opt args) then m\<lparr>meta_template := template_opt args\<rparr> else m);
             m2 = (if truthy (format_opt args)
                   then (case meta_page m1 of
                           Some p \<Rightarrow> m1\<lparr>meta_page := Some (p\<lparr>page_format := format_opt args\<rparr>)\<rparr>
                         | None \<Rightarrow> m1)
                   else m1)
         in resumeData\<lparr>resume_metadata := Some m2\<rparr>)"

definition effective_template :: "resume \<Rightarrow> string" where
  "effective_template resumeData =
    (case resume_metadata resumeData of
       None \<Rightarrow> ''onyx''
     | Some m \<Rightarrow> (case meta_template m of None \<Rightarrow> ''onyx'' | Some t \<Rightarrow> t))"

definition pageSettings_of :: "resume \<Rightarrow> page_settings option" where
  "pageSettings_of resumeData =
    (case resume_metadata resumeData of None \<Rightarrow> None | Some m \<Rightarrow> meta_page m)"

definition effective_format :: "resume \<Rightarrow> string" where
  "effective_format resumeData =
    (case pageSettings_of resumeData of
       None \<Rightarrow> ''a4''
     | Some p \<Rightarrow> (case page_format p of None \<Rightarrow> ''a4'' | Some f \<Rightarrow> f))"

subsection \<open>System Chrome detection (lines 60 to 97)\<close>

definition bs :: char where
  "bs = CHR 0x5C"

text \<open>A Windows path: the base directory, then each part after a backslash.\<close>

definition win_path :: "string \<Rightarrow> string list \<Rightarrow> string" where
  "win_path base parts = base @ concat (map (\<lambda>p. bs # p) parts)"

definition env_or :: "(string \<rightharpoonup> string) \<Rightarrow> string \<Rightarrow> string \<Rightarrow> string" where
  "env_or env name dflt = (case env name of None \<Rightarrow> dflt | Some v \<Rightarrow> v)"

definition candidates :: "(string \<rightharpoonup> string) \<Rightarrow> string \<Rightarrow> string list" where
  "candidates env platform =
    (if platform = ''darwin'' then
       [''/Applications/Google Chrome.app/Contents/MacOS/Google Chrome'',
        ''/Applications/Chromium.app/Contents/MacOS/Chromium'',
        ''/Applications/Google Chrome Canary.app/Contents/MacOS/Google Chrome Canary'',
        ''/Applications/Brave Browser.app/Contents/MacOS/Brave Browser'',
        ''/Applications/Microsoft Edge.app/Contents/MacOS/Microsoft Edge'']
     else if platform = ''linux'' then
       [''/usr/bin/google-chrome'',
        ''/usr/bin/google-chrome-stable'',
        ''/usr/bin/chromium'',
        ''/usr/bin/chromium-browser'',
        ''/snap/bin/chromium'']
     else if platform = ''win32'' then
       (let programFiles = env_or env ''PROGRAMFILES'' (win_path ''C:'' [''Program Files'']);
            programFilesX86 = env_or env ''PROGRAMFILES(X86)'' (win_path ''C:'' [''Program Files (x86)'']);
            localAppData = env_or env ''LOCALAPPDATA'' []
        in [win_path programFiles [''Google'', ''Chrome'', ''Application'', ''chrome.exe''],
            win_path programFilesX86 [''Google'', ''Chrome'', ''Application'', ''chrome.exe''],
            win_path localAppData [''Google'', ''Chrome'', ''Application'', ''chrome.exe''],
            win_path programFiles [''Microsoft'', ''Edge'', ''Application'', ''msedge.exe'']])
     else [])"

text \<open>The explicit path is returned when \<open>CHROME_PATH\<close> is a non-empty string naming an
  existing file; otherwise the first existing candidate, or \<open>None\<close> for \<open>null\<close>.\<close>

definition findSystemChrome ::
  "(string \<rightharpoonup> string) \<Rightarrow> string \<Rightarrow> (string \<Rightarrow> bool) \<Rightarrow> string option" where
  "findSystemChrome env platform existsSync =
    (case env ''CHROME_PATH'' of
       Some p \<Rightarrow>
         if p \<noteq> [] \<and> existsSync p then Some p
         else find existsSync (candidates env platform)
     | None \<Rightarrow> find existsSync (candidates env platform))"

subsection \<open>The rendered page\<close>

text \<open>
  The geometry pass reads strings from the page and parses them. The snapshot of the page
  holds each such string by what the parser yields for it: a CSS value is \<open>Blank\<close> (the
  empty string) or \<open>Parsed n\<close>, a non-empty string on which \<open>parseFloat\<close> yields \<open>n\<close>
  (\<open>None\<close> for \<open>NaN\<close>); the attribute \<open>data-page-index\<close> is held by the result of
  \<open>parseInt(..., 10)\<close>. Every element selected by \<open>[data-page-index]\<close> has the
  attribute, so the default \<open>"0"\<close> of line 402 is never taken. A value the pass writes,
  \<open>`${n}px`\<close>, is \<open>Parsed (Some n)\<close>, and the computed style of a property is its inline
  style once the pass has set one.
\<close>

datatype css_value = Blank | Parsed "rat option"

record page_element =
  data_page_index :: "int option"
  offsetHeight :: int
  marginBottom :: css_value
  breakBefore :: string
  breakInside :: string

text \<open>\<open>root_page_height\<close> is the trimmed \<open>--page-height\<close> of the document element,
  \<open>container_page_height\<close> that of \<open>.resume-preview-container\<close>, \<open>None\<close> when the page
  has no such element.\<close>

record dom =
  root_page_height :: css_value
  container_page_height :: "css_value option"
  pageElements :: "page_element list"

definition parseFloat :: "css_value \<Rightarrow> rat option" where
  "parseFloat v = (case v of Blank \<Rightarrow> None | Parsed n \<Rightarrow> n)"

text \<open>\<open>Math.max\<close> is \<open>NaN\<close> as soon as one argument is.\<close>

definition Math_max :: "rat option \<Rightarrow> rat option \<Rightarrow> rat option" where
  "Math_max a b =
    (case a of None \<Rightarrow> None | Some x \<Rightarrow> (case b of None \<Rightarrow> None | Some y \<Rightarrow> Some (max x y)))"

subsection \<open>The geometry pass (lines 364 to 412)\<close>

text \<open>The loop of lines 373 to 375: every element but the last gets the margin.\<close>

fun set_marginBottom :: "rat \<Rightarrow> page_element list \<Rightarrow> page_element list" where
  "set_marginBottom m [] = []"
| "set_marginBottom m [e] = [e]"
| "set_marginBottom m (e # e' # es) =
     e\<lparr>marginBottom := Parsed (Some m)\<rparr> # set_marginBottom m (e' # es)"

text \<open>\<open>Number.parseFloat(style.marginBottom) || 0\<close>\<close>

definition marginBottom_px :: "page_element \<Rightarrow> rat" where
  "marginBottom_px e = (case parseFloat (marginBottom e) of None \<Rightarrow> 0 | Some m \<Rightarrow> m)"

text \<open>The loop of lines 376 to 382, from \<open>totalHeight = 0\<close>.\<close>

definition total_height :: "page_element list \<Rightarrow> rat" where
  "total_height els = foldl (\<lambda>totalHeight e. totalHeight + (of_int (offsetHeight e) + marginBottom_px e)) 0 els"

text \<open>\<open>containerHeight || rootHeight\<close>: the root's value when there is no container or the
  container's value is the empty string.\<close>

definition currentHeight :: "dom \<Rightarrow> css_value" where
  "currentHeight d =
    (case container_page_height d of
       None \<Rightarrow> root_page_height d
     | Some Blank \<Rightarrow> root_page_height d
     | Some (Parsed n) \<Rightarrow> Parsed n)"

text \<open>Lines 396 and 397: the new height on the container, if there is one, and on the root.\<close>

definition set_page_height :: "rat \<Rightarrow> dom \<Rightarrow> dom" where
  "set_page_height h d =
    d\<lparr>container_page_height := map_option (\<lambda>_. Parsed (Some h)) (container_page_height d),
      root_page_height := Parsed (Some h)\<rparr>"

text \<open>The body of the loop of lines 400 to 405.\<close>

definition apply_breaks :: "page_element \<Rightarrow> page_element" where
  "apply_breaks e =
    (let e1 = (case data_page_index e of
                 None \<Rightarrow> e
               | Some index \<Rightarrow> if index > 0 then e\<lparr>breakBefore := ''page''\<rparr> else e)
     in e1\<lparr>breakInside := ''auto''\<rparr>)"

text \<open>The function given to \<open>page.evaluate\<close>: its result (\<open>None\<close> for \<open>null\<close>) and the page
  it leaves.\<close>

definition geometry_pass :: "int \<Rightarrow> bool \<Rightarrow> int \<Rightarrow> dom \<Rightarrow> rat option \<times> dom" where
  "geometry_pass marginY isFreeForm minPageHeight d =
    (if isFreeForm then
       (let marginYAsPixels = of_int marginY * (3 / 4);
            els = set_marginBottom marginYAsPixels (pageElements d);
            totalHeight = total_height els
        in (Some (max totalHeight (of_int minPageHeight)), d\<lparr>pageElements := els\<rparr>))
     else
       (let heightValue = Math_max (parseFloat (currentHeight d)) (Some (of_int minPageHeight));
            d1 = (case heightValue of
                    None \<Rightarrow> d
                  | Some h \<Rightarrow> set_page_height (h - of_int marginY) d)
        in (None, d1\<lparr>pageElements := map apply_breaks (pageElements d1)\<rparr>)))"

subsection \<open>The call of \<open>page.pdf\<close> (lines 418 to 433)\<close>

text \<open>\<open>Px n\<close> is the string \<open>`${n}px`\<close> for a number \<open>n\<close>, \<open>PxUndefined\<close> the string
  \<open>undefinedpx\<close> that the template literal gives for \<open>undefined\<close>.\<close>

datatype px = Px rat | PxUndefined

record pdf_options =
  opt_width :: px
  opt_height :: px
  opt_tagged :: bool
  opt_waitForFonts :: bool
  opt_printBackground :: bool
  margin_bottom :: int
  margin_top :: int
  margin_right :: int
  margin_left :: int

text \<open>\<open>isFreeForm && contentHeight ? contentHeight : dimensions.height\<close>: \<open>null\<close> and 0
  are falsy.\<close>

definition pdfHeight :: "bool \<Rightarrow> rat option \<Rightarrow> dimensions \<Rightarrow> rat" where
  "pdfHeight isFreeForm contentHeight dims =
    (case contentHeight of
       None \<Rightarrow> of_int (height dims)
     | Some h \<Rightarrow> if isFreeForm \<and> h \<noteq> 0 then h else of_int (height dims))"

text \<open>
  The pass when \<open>minPageHeight\<close> is \<open>undefined\<close>, as it is when the dimensions are an
  inherited value: \<open>Math.max\<close> with \<open>undefined\<close> is \<open>NaN\<close>. The free-form branch sets
  the spacing and returns \<open>NaN\<close>; the other branch skips the write of the page height
  (line 394), applies the breaks and returns \<open>null\<close>. Both results are falsy, so only the
  page that the pass leaves is kept.
\<close>

definition geometry_pass_undefined :: "int \<Rightarrow> bool \<Rightarrow> dom \<Rightarrow> dom" where
  "geometry_pass_undefined marginY isFreeForm d =
    (if isFreeForm
     then d\<lparr>pageElements := set_marginBottom (of_int marginY * (3 / 4)) (pageElements d)\<rparr>
     else d\<lparr>pageElements := map apply_breaks (pageElements d)\<rparr>)"

text \<open>Lines 354 to 433 without the awaits: the page after the geometry pass and the
  options given to \<open>page.pdf\<close>. With inherited dimensions \<open>dimensions.width\<close> and
  \<open>dimensions.height\<close> are \<open>undefined\<close>, and \<open>pdfHeight\<close> is \<open>dimensions.height\<close> since
  the result of the pass is falsy.\<close>

definition geometry_and_options ::
  "string \<Rightarrow> string \<Rightarrow> page_settings option \<Rightarrow> dom \<Rightarrow> dom \<times> pdf_options" where
  "geometry_and_options template format pageSettings d =
    (let (marginX, marginY) = margins template pageSettings;
         isFreeForm = (format = ''free-form'')
     in case dimensions_of format of
          Some dims \<Rightarrow>
            (let (contentHeight, d') = geometry_pass marginY isFreeForm (height dims) d
             in (d',
                 \<lparr>opt_width = Px (of_int (width dims)),
                  opt_height = Px (pdfHeight isFreeForm contentHeight dims),
                  opt_tagged = True,
                  opt_waitForFonts = True,
                  opt_printBackground = True,
                  margin_bottom = 0,
                  margin_top = marginY,
                  margin_right = marginX,
                  margin_left = marginX\<rparr>))
        | None \<Rightarrow>
            (geometry_pass_undefined marginY isFreeForm d,
             \<lparr>opt_width = PxUndefined,
              opt_height = PxUndefined,
              opt_tagged = True,
              opt_waitForFonts = True,
              opt_printBackground = True,
              margin_bottom = 0,
              margin_top = marginY,
              margin_right = marginX,
              margin_left = marginX\<rparr>))"

subsection \<open>Errors, the outside world and the outcome of a run\<close>

text \<open>The awaited calls of the \<open>try\<close> block of \<open>main\<close> that reject when they fail
  (\<open>page.waitForFunction\<close> has a \<open>catch\<close> of its own).\<close>

datatype page_step =
  NewPage | EvaluateOnNewDocument | SetViewport | Goto | Evaluate | Pdf | PageClose | WriteFile

datatype error =
  Usage
  | InvalidTemplate string
  | InvalidFormat string
  | InputUnreadable
  | StartTimeout
  | SpawnFailed
  | ExitedEarly int string
  | NotReachable
  | ImportFailed
  | InvalidEndpoint
  | ConnectFailed
  | ChromeNotFound
  | LaunchFailed
  | StepFailed page_step
  | BrowserCloseFailed

text \<open>What the child process does before the timer of 60 seconds fires: chunks on its
  standard output and standard error, the \<open>error\<close> event, the \<open>exit\<close> event with its code
  (\<open>None\<close> for \<open>null\<close>).\<close>

datatype server_event = StdoutData string | StderrData string | ChildError | ChildExit "int option"

text \<open>
  \<open>sys_url_regex\<close> is \<open>output.match(/https?:\/\/[^\s]+?:\d+/)\<close>, the matched text or
  \<open>None\<close>. \<open>sys_fetch url t\<close> is the attempt that starts \<open>t\<close> milliseconds after
  \<open>waitForServer\<close> was called: whether it succeeds and how long it takes.
  \<open>sys_readJson\<close> is \<open>readFileSync\<close> followed by \<open>JSON.parse\<close>, \<open>None\<close> when either
  throws. \<open>sys_failing_step\<close> is the first call of the \<open>try\<close> block that rejects, if any.
\<close>

record sys =
  sys_env :: "string \<rightharpoonup> string"
  sys_platform :: string
  sys_existsSync :: "string \<Rightarrow> bool"
  sys_resolve :: "string \<Rightarrow> string"
  sys_readJson :: "string \<Rightarrow> resume option"
  sys_random :: nat
  sys_url_regex :: "string \<Rightarrow> string option"
  sys_vite_events :: "server_event list"
  sys_fetch :: "string \<Rightarrow> nat \<Rightarrow> bool \<times> nat"
  sys_import_ok :: bool
  sys_endpoint_valid :: bool
  sys_connect_ok :: bool
  sys_launch_ok :: bool
  sys_failing_step :: "page_step option"
  sys_fonts_loaded :: bool
  sys_page_dom :: dom
  sys_browser_close_ok :: bool

record outcome =
  exit_code :: nat
  failure :: "error option"
  input_read :: bool
  server_spawned :: bool
  server_killed :: bool
  browser_acquired :: bool
  browser_closed :: bool
  font_warning :: bool
  dom_after :: "dom option"
  pdf_call :: "pdf_options option"
  written :: "string option"

text \<open>\<open>input_read\<close> says that \<open>readFileSync\<close> has been called on the input path.
  The process ends with the given code before the input is read and \<open>main\<close> is called.\<close>

definition exited :: "nat \<Rightarrow> error option \<Rightarrow> outcome" where
  "exited code e =
    \<lparr>exit_code = code, failure = e, input_read = False, server_spawned = False,
     server_killed = False,
     browser_acquired = False, browser_closed = False, font_warning = False,
     dom_after = None, pdf_call = None, written = None\<rparr>"

text \<open>The state of the run once \<open>spawn\<close> has returned the child.\<close>

definition spawned :: outcome where
  "spawned = (exited 0 None)\<lparr>server_spawned := True\<rparr>"

text \<open>A rejection that reaches \<open>main().catch\<close>: \<open>process.exit(1)\<close>.\<close>

definition crashed :: "error \<Rightarrow> outcome \<Rightarrow> outcome" where
  "crashed e out = out\<lparr>exit_code := 1, failure := Some e\<rparr>"

subsection \<open>\<open>startViteServer\<close> (lines 195 to 244)\<close>

text \<open>A promise settles once: the first \<open>resolve\<close> or \<open>reject\<close> wins.\<close>

definition settle :: "'a option \<Rightarrow> 'a \<Rightarrow> 'a option" where
  "settle st r = (case st of None \<Rightarrow> Some r | Some x \<Rightarrow> Some x)"

text \<open>\<open>match[0].replace(/['"]/g, "")\<close>\<close>

definition strip_quotes :: "string \<Rightarrow> string" where
  "strip_quotes m = filter (\<lambda>c. c \<noteq> CHR 0x27 \<and> c \<noteq> CHR 0x22) m"

text \<open>One event handler, on the pair of \<open>output\<close> and the state of the promise.\<close>

fun vite_event ::
  "(string \<Rightarrow> string option) \<Rightarrow> string \<times> (error + string) option \<Rightarrow> server_event
    \<Rightarrow> string \<times> (error + string) option" where
  "vite_event rx (output, st) (StdoutData d) =
     (let output' = output @ d
      in (output', case rx output' of
                     Some m \<Rightarrow> settle st (Inr (strip_quotes m))
                   | None \<Rightarrow> st))"
| "vite_event rx (output, st) (StderrData d) = (output @ d, st)"
| "vite_event rx (output, st) ChildError = (output, settle st (Inl SpawnFailed))"
| "vite_event rx (output, st) (ChildExit code) =
     (output, case code of
                None \<Rightarrow> st
              | Some c \<Rightarrow> if c \<noteq> 0 then settle st (Inl (ExitedEarly c output)) else st)"

text \<open>The child is spawned, the events are handled in order, and the timer rejects a
  promise that no event has settled. \<open>Inr url\<close> resolves, \<open>Inl e\<close> rejects. Nothing here
  kills the child.\<close>

definition startViteServer ::
  "(string \<Rightarrow> string option) \<Rightarrow> server_event list \<Rightarrow> nat \<Rightarrow> error + string" where
  "startViteServer rx events port =
    (case snd (foldl (vite_event rx) ([], None) events) of
       Some r \<Rightarrow> r
     | None \<Rightarrow> Inl StartTimeout)"

subsection \<open>\<open>waitForServer\<close> (lines 250 to 261)\<close>

text \<open>\<open>elapsed\<close> is \<open>Date.now() - start\<close> at the test of the loop; a failed attempt is
  followed by a pause of 300 milliseconds. \<open>True\<close> returns, \<open>False\<close> throws.\<close>

function waitForServer :: "(nat \<Rightarrow> bool \<times> nat) \<Rightarrow> nat \<Rightarrow> nat \<Rightarrow> bool" where
  "waitForServer attempt timeoutMs elapsed =
    (if elapsed < timeoutMs
     then (case attempt elapsed of
             (True, _) \<Rightarrow> True
           | (False, duration) \<Rightarrow> waitForServer attempt timeoutMs (elapsed + duration + 300))
     else False)"
  by pat_completeness auto
termination
  by (relation "measure (\<lambda>(attempt, timeoutMs, elapsed). timeoutMs - elapsed)") auto

declare waitForServer.simps [simp del]

subsection \<open>\<open>main\<close> (lines 267 to 449)\<close>

text \<open>The \<open>try\<close> block, from the state in which the server runs and the browser is open.\<close>

definition try_block ::
  "sys \<Rightarrow> string \<Rightarrow> string \<Rightarrow> page_settings option \<Rightarrow> string \<Rightarrow> outcome \<Rightarrow> outcome" where
  "try_block s template format pageSettings outPath out =
    (let fails = (\<lambda>step. sys_failing_step s = Some step) in
     if fails NewPage then crashed (StepFailed NewPage) out
     else if fails EvaluateOnNewDocument then crashed (StepFailed EvaluateOnNewDocument) out
     else if fails SetViewport then crashed (StepFailed SetViewport) out
     else if fails Goto then crashed (StepFailed Goto) out
     else
       let out1 = out\<lparr>font_warning := \<not> sys_fonts_loaded s\<rparr> in
       if fails Evaluate then crashed (StepFailed Evaluate) out1
       else
         let (d', opts) = geometry_and_options template format pageSettings (sys_page_dom s);
             out2 = out1\<lparr>dom_after := Some d'\<rparr>
         in
         if fails Pdf then crashed (StepFailed Pdf) out2
         else
           let out3 = out2\<lparr>pdf_call := Some opts\<rparr> in
           if fails PageClose then crashed (StepFailed PageClose) out3
           else if fails WriteFile then crashed (StepFailed WriteFile) out3
           else out3\<lparr>written := Some outPath\<rparr>)"

text \<open>The \<open>finally\<close> block: \<open>await browser.close()\<close>, then \<open>viteChild.kill()\<close>. When
  closing the browser rejects, the rejection replaces the outcome of the \<open>try\<close> block and
  the child is not killed.\<close>

definition finally_block :: "sys \<Rightarrow> outcome \<Rightarrow> outcome" where
  "finally_block s out =
    (if sys_browser_close_ok s
     then out\<lparr>browser_closed := True, server_killed := True\<rparr>
     else crashed BrowserCloseFailed out)"

definition with_browser ::
  "sys \<Rightarrow> string \<Rightarrow> string \<Rightarrow> page_settings option \<Rightarrow> string \<Rightarrow> outcome" where
  "with_browser s template format pageSettings outPath =
    finally_block s
      (try_block s template format pageSettings outPath (spawned\<lparr>browser_acquired := True\<rparr>))"

definition main ::
  "sys \<Rightarrow> string \<Rightarrow> string \<Rightarrow> page_settings option \<Rightarrow> string \<Rightarrow> outcome" where
  "main s template format pageSettings outPath =
    (let port = 15173 + sys_random s in
     case startViteServer (sys_url_regex s) (sys_vite_events s) port of
       Inl e \<Rightarrow> crashed e spawned
     | Inr serverUrl \<Rightarrow>
         if \<not> waitForServer (sys_fetch s serverUrl) 15000 0 then crashed NotReachable spawned
         else if \<not> sys_import_ok s then crashed ImportFailed spawned
         else if truthy (sys_env s ''PRINTER_ENDPOINT'') then
           (if \<not> sys_endpoint_valid s then crashed InvalidEndpoint spawned
            else if \<not> sys_connect_ok s then crashed ConnectFailed spawned
            else with_browser s template format pageSettings outPath)
         else
           (case findSystemChrome (sys_env s) (sys_platform s) (sys_existsSync s) of
              None \<Rightarrow> crashed ChromeNotFound (spawned\<lparr>server_killed := True\<rparr>)
            | Some chromePath \<Rightarrow>
                if \<not> sys_launch_ok s then crashed LaunchFailed spawned
                else with_browser s template format pageSettings outPath))"

subsection \<open>The script\<close>

text \<open>The top level of the file, from the result of \<open>parseArgs\<close> to the end of the
  process.\<close>

definition script :: "sys \<Rightarrow> cli \<Rightarrow> outcome" where
  "script s args =
    (if help_flag args \<or> positionals args = []
     then exited (if help_flag args then 0 else 1) (if help_flag args then None else Some Usage)
     else
       let p0 = hd (positionals args); rest = tl (positionals args) in
       if truthy (template_opt args) \<and> the (template_opt args) \<notin> set VALID_TEMPLATES
         then exited 1 (Some (InvalidTemplate (the (template_opt args))))
       else if truthy (format_opt args) \<and> the (format_opt args) \<notin> set VALID_FORMATS
         then exited 1 (Some (InvalidFormat (the (format_opt args))))
       else
         (case sys_readJson s (inputPath (sys_resolve s) p0) of
            None \<Rightarrow> (exited 1 (Some InputUnreadable))\<lparr>input_read := True\<rparr>
          | Some resumeData \<Rightarrow>
              let merged = apply_overrides args resumeData
              in (main s (effective_template merged) (effective_format merged)
                    (pageSettings_of merged) (outputPath (sys_resolve s) p0 rest))
                 \<lparr>input_read := True\<rparr>))"

subsection \<open>File names that end in \<open>.json\<close>\<close>

text \<open>
  The words "a trailing \<open>.json\<close>, case-insensitive", independently of the regular
  expression: the name is a stem followed by an extension that is \<open>.json\<close> once its
  ASCII capitals are made small.
\<close>

definition ascii_lower :: "char \<Rightarrow> char" where
  "ascii_lower c =
    (let n = (of_char c :: nat) in if 65 \<le> n \<and> n \<le> 90 then char_of (n + 32) else c)"

definition ends_with_dot_json :: "string \<Rightarrow> bool" where
  "ends_with_dot_json p \<longleftrightarrow> (\<exists>stem ext. p = stem @ ext \<and> map ascii_lower ext = ''.json'')"

subsection \<open>A sample run\<close>

text \<open>
  A page of three elements, a payload, a command line and a world in which every step
  succeeds: the payload is stored as \<open>/work/resume.json\<close> and once more as
  \<open>/work/resume.txt\<close>, the server prints its address, the first request is answered,
  Chromium is installed at \<open>/usr/bin/chromium\<close>, and no call of the \<open>try\<close> block
  rejects.
\<close>

definition example_page :: "int \<Rightarrow> int \<Rightarrow> page_element" where
  "example_page index h =
    \<lparr>data_page_index = Some index, offsetHeight = h, marginBottom = Parsed (Some 0),
     breakBefore = [], breakInside = []\<rparr>"

definition example_dom :: dom where
  "example_dom =
    \<lparr>root_page_height = Parsed (Some 1123),
     container_page_height = Some (Parsed (Some 1123)),
     pageElements = [example_page 0 500, example_page 1 600, example_page 2 400]\<rparr>"

definition example_resume :: resume where
  "example_resume =
    \<lparr>resume_metadata = Some
      \<lparr>meta_template = Some ''onyx'',
       meta_page = Some \<lparr>page_format = Some ''a4'', page_marginX = Some 14, page_marginY = Some 12\<rparr>\<rparr>\<rparr>"

definition example_cli :: cli where
  "example_cli =
    \<lparr>help_flag = False, positionals = [''resume.json''], template_opt = None, format_opt = None\<rparr>"

definition example_sys :: "resume \<Rightarrow> sys" where
  "example_sys payload =
    \<lparr>sys_env = Map.empty,
     sys_platform = ''linux'',
     sys_existsSync = (\<lambda>p. p = ''/usr/bin/chromium''),
     sys_resolve = (\<lambda>p. ''/work/'' @ p),
     sys_readJson =
       (\<lambda>p. if p = ''/work/resume.json'' \<or> p = ''/work/resume.txt'' then Some payload else None),
     sys_random = 0,
     sys_url_regex = (\<lambda>output. if output = [] then None else Some ''http://127.0.0.1:15173''),
     sys_vite_events = [StdoutData ''Local: http://127.0.0.1:15173/''],
     sys_fetch = (\<lambda>url t. (True, 20)),
     sys_import_ok = True,
     sys_endpoint_valid = True,
     sys_connect_ok = True,
     sys_launch_ok = True,
     sys_failing_step = None,
     sys_fonts_loaded = True,
     sys_page_dom = example_dom,
     sys_browser_close_ok = True\<rparr>"

text \<open>The same world with a server that prints nothing before the timer fires.\<close>

definition silent_server_sys :: sys where
  "silent_server_sys = (example_sys example_resume)\<lparr>sys_vite_events := []\<rparr>"

text \<open>Another world that renders the same page: the browser is remote, the port and the
  address of the server differ, the server writes to its standard error first, and the
  fonts do not report that they are loaded.\<close>

definition remote_sys :: sys where
  "remote_sys =
    (example_sys example_resume)
      \<lparr>sys_env := [''PRINTER_ENDPOINT'' \<mapsto> ''ws://localhost:4000?token=1234567890''],
       sys_random := 421,
       sys_url_regex :=
         (\<lambda>output. if length output < 20 then None else Some ''http://127.0.0.1:15594''),
       sys_vite_events := [StderrData ''warming up'', StdoutData ''Local: http://127.0.0.1:15594/''],
       sys_fonts_loaded := False\<rparr>"

text \<open>A payload whose template is not one of \<open>VALID_TEMPLATES\<close>, and one without
  metadata.\<close>

definition unknown_template_resume :: resume where
  "unknown_template_resume =
    \<lparr>resume_metadata = Some \<lparr>meta_template = Some ''foo'', meta_page = None\<rparr>\<rparr>"

definition bare_resume :: resume where
  "bare_resume = \<lparr>resume_metadata = None\<rparr>"

definition override_cli :: cli where
  "override_cli =
    \<lparr>help_flag = False, positionals = [''resume.json''], template_opt = Some ''pikachu'',
     format_opt = Some ''letter''\<rparr>"

text \<open>A payload whose format is not one of \<open>VALID_FORMATS\<close>, a payload whose format is
  a name that every object inherits, and a command line with an unknown template.\<close>

definition unknown_format_resume :: resume where
  "unknown_format_resume =
    \<lparr>resume_metadata = Some
      \<lparr>meta_template = Some ''onyx'',
       meta_page = Some \<lparr>page_format = Some ''legal'', page_marginX = Some 14, page_marginY = Some 12\<rparr>\<rparr>\<rparr>"


definition bogus_cli :: cli where
  "bogus_cli =
    \<lparr>help_flag = False, positionals = [''resume.json''], template_opt = Some ''bogus'',
     format_opt = None\<rparr>"

text \<open>A page that declares no \<open>--page-height\<close>.\<close>

definition unsized_dom :: dom where
  "unsized_dom =
    \<lparr>root_page_height = Blank, container_page_height = None,
     pageElements = [example_page 0 500, example_page 1 600]\<rparr>"

text \<open>A command line that names an input file without the ending \<open>.json\<close>.\<close>

definition txt_cli :: cli where
  "txt_cli =
    \<lparr>help_flag = False, positionals = [''resume.txt''], template_opt = None, format_opt = None\<rparr>"

section \<open>Properties\<close>

subsection \<open>Projections of the outcome\<close>

lemma crashed_simps [simp]:
  "written (crashed e out) = written out"
  "pdf_call (crashed e out) = pdf_call out"
  "dom_after (crashed e out) = dom_after out"
  "server_spawned (crashed e out) = server_spawned out"
  "server_killed (crashed e out) = server_killed out"
  "browser_acquired (crashed e out) = browser_acquired out"
  "browser_closed (crashed e out) = browser_closed out"
  "exit_code (crashed e out) = 1"
  "failure (crashed e out) = Some e"
  by (simp_all add: crashed_def)

lemma spawned_simps [simp]:
  "written spawned = None"
  "pdf_call spawned = None"
  "dom_after spawned = None"
  "server_spawned spawned"
  "\<not> server_killed spawned"
  "\<not> browser_acquired spawned"
  "\<not> browser_closed spawned"
  by (simp_all add: spawned_def exited_def)

lemma finally_block_simps [simp]:
  "written (finally_block s out) = written out"
  "pdf_call (finally_block s out) = pdf_call out"
  "dom_after (finally_block s out) = dom_after out"
  by (simp_all add: finally_block_def)

subsection \<open>The sample run\<close>

lemma waitForServer_first_attempt:
  "0 < timeoutMs \<Longrightarrow> fst (attempt 0) \<Longrightarrow> waitForServer attempt timeoutMs 0"
  by (subst waitForServer.simps) (simp add: case_prod_beta split: bool.splits)

lemma startViteServer_silent: "startViteServer rx [] port = Inl StartTimeout"
  by (simp add: startViteServer_def)

lemma example_start:
  "startViteServer (sys_url_regex (example_sys p)) (sys_vite_events (example_sys p)) port
    = Inr ''http://127.0.0.1:15173''"
  by (simp add: startViteServer_def example_sys_def settle_def strip_quotes_def)

lemma example_chrome:
  "findSystemChrome (sys_env (example_sys p)) (sys_platform (example_sys p))
     (sys_existsSync (example_sys p)) = Some ''/usr/bin/chromium''"
  by (simp add: findSystemChrome_def example_sys_def candidates_def)

lemma example_with_browser:
  "with_browser (example_sys p) t f ps outPath =
    \<lparr>exit_code = 0, failure = None, input_read = False, server_spawned = True,
     server_killed = True, browser_acquired = True, browser_closed = True, font_warning = False,
     dom_after = Some (fst (geometry_and_options t f ps example_dom)),
     pdf_call = Some (snd (geometry_and_options t f ps example_dom)),
     written = Some outPath\<rparr>"
  by (simp add: with_browser_def try_block_def finally_block_def spawned_def exited_def
      example_sys_def Let_def case_prod_beta)

lemma example_main:
  "main (example_sys p) t f ps outPath = with_browser (example_sys p) t f ps outPath"
proof -
  have w: "waitForServer (sys_fetch (example_sys p) ''http://127.0.0.1:15173'') 15000 0"
    by (rule waitForServer_first_attempt) (simp_all add: example_sys_def)
  have e: "\<not> truthy (sys_env (example_sys p) ''PRINTER_ENDPOINT'')"
    by (simp add: example_sys_def truthy_def)
  have i: "sys_import_ok (example_sys p)" "sys_launch_ok (example_sys p)"
    by (simp_all add: example_sys_def)
  show ?thesis
    by (simp add: main_def Let_def example_start w e i example_chrome)
qed

lemma example_script:
  "script (example_sys p) example_cli =
    (main (example_sys p) (effective_template p) (effective_format p) (pageSettings_of p)
      ''/work/resume.pdf'')\<lparr>input_read := True\<rparr>"
proof -
  have r: "sys_readJson (example_sys p) (inputPath (sys_resolve (example_sys p)) ''resume.json'') = Some p"
    by (simp add: example_sys_def inputPath_def)
  have o: "outputPath (sys_resolve (example_sys p)) ''resume.json'' [] = ''/work/resume.pdf''"
    by (simp add: example_sys_def outputPath_def replace_json_ext_def matches_dot_json_def Let_def)
  have a: "apply_overrides example_cli p = p"
    by (simp add: apply_overrides_def example_cli_def truthy_def Let_def split: option.splits)
  show ?thesis
    by (simp add: script_def example_cli_def truthy_def Let_def r o a [unfolded example_cli_def])
qed

lemma remote_main:
  "pdf_call (main remote_sys t f ps outPath) = Some (snd (geometry_and_options t f ps example_dom))"
proof -
  have st: "startViteServer (sys_url_regex remote_sys) (sys_vite_events remote_sys) port
      = Inr ''http://127.0.0.1:15594''" for port
    by (simp add: startViteServer_def remote_sys_def example_sys_def settle_def strip_quotes_def)
  have w: "waitForServer (sys_fetch remote_sys ''http://127.0.0.1:15594'') 15000 0"
    by (rule waitForServer_first_attempt) (simp_all add: remote_sys_def example_sys_def)
  have e: "truthy (sys_env remote_sys ''PRINTER_ENDPOINT'')"
    by (simp add: remote_sys_def truthy_def)
  have i: "sys_import_ok remote_sys" "sys_endpoint_valid remote_sys" "sys_connect_ok remote_sys"
    by (simp_all add: remote_sys_def example_sys_def)
  have m: "main remote_sys t f ps outPath = with_browser remote_sys t f ps outPath"
    by (simp add: main_def Let_def st w e i)
  have f: "sys_failing_step remote_sys = None" "sys_page_dom remote_sys = example_dom"
    by (simp_all add: remote_sys_def example_sys_def)
  show ?thesis
    unfolding m by (simp add: with_browser_def try_block_def f Let_def case_prod_beta)
qed

subsection \<open>Release of the server and the browser\<close>

text \<open>Once the browser is open, the \<open>finally\<close> block closes it and kills the server,
  whatever the \<open>try\<close> block did, provided that closing the browser does not reject.\<close>

lemma cleanup_when_browser_closes:
  "sys_browser_close_ok s \<Longrightarrow>
    browser_closed (with_browser s t f ps outPath) \<and> server_killed (with_browser s t f ps outPath)"
  by (simp add: with_browser_def finally_block_def)

text \<open>When no local browser is found, the server is killed before the process exits.\<close>

lemma cleanup_when_chrome_missing:
  assumes "startViteServer (sys_url_regex s) (sys_vite_events s) (15173 + sys_random s) = Inr url"
    and "waitForServer (sys_fetch s url) 15000 0"
    and "sys_import_ok s"
    and "\<not> truthy (sys_env s ''PRINTER_ENDPOINT'')"
    and "findSystemChrome (sys_env s) (sys_platform s) (sys_existsSync s) = None"
  shows "server_killed (main s t f ps outPath) \<and> exit_code (main s t f ps outPath) = 1"
  using assms by (simp add: main_def Let_def)

text \<open>A rejection of \<open>startViteServer\<close> ends the run with the child spawned and not
  killed.\<close>

lemma rejected_start_leaves_server:
  "startViteServer (sys_url_regex s) (sys_vite_events s) (15173 + sys_random s) = Inl e \<Longrightarrow>
    main s t f ps outPath = crashed e spawned"
  by (simp add: main_def Let_def)

text \<open>
  C1. On every exit path the server process is terminated and the browser is closed; when
  the server prints no address before the timer of 60 seconds fires, the run fails, the
  server is terminated and no file is written. The script does not do this: with a silent
  server the promise of \<open>startViteServer\<close> is rejected by the timer, the rejection leaves
  \<open>main\<close> before its \<open>try\<close> block, and the process exits with code 1 while the child it
  has spawned was never killed. No file is written.
\<close>

theorem C1_timeout_leaves_server_running:
  "exit_code (script silent_server_sys example_cli) = 1
   \<and> failure (script silent_server_sys example_cli) = Some StartTimeout
   \<and> server_spawned (script silent_server_sys example_cli)
   \<and> \<not> server_killed (script silent_server_sys example_cli)
   \<and> written (script silent_server_sys example_cli) = None"
proof -
  have r: "sys_readJson silent_server_sys (inputPath (sys_resolve silent_server_sys) ''resume.json'')
      = Some example_resume"
    by (simp add: silent_server_sys_def example_sys_def inputPath_def)
  have m: "main silent_server_sys t f ps outPath = crashed StartTimeout spawned" for t f ps outPath
    by (rule rejected_start_leaves_server) (simp add: silent_server_sys_def startViteServer_silent)
  have "script silent_server_sys example_cli = (crashed StartTimeout spawned)\<lparr>input_read := True\<rparr>"
    by (simp add: script_def example_cli_def truthy_def Let_def r m)
  then show ?thesis by simp
qed

subsection \<open>Margins\<close>

lemma Math_round_is_round: "Math_round x = round x"
  by (simp add: Math_round_def round_def)

lemma margins_print:
  "template \<in> set PRINT_MARGIN_TEMPLATES \<Longrightarrow>
    margins template ps = (Math_round (raw_marginX ps / (3 / 4)), Math_round (raw_marginY ps / (3 / 4)))"
  by (simp add: margins_def)

lemma margins_other: "template \<notin> set PRINT_MARGIN_TEMPLATES \<Longrightarrow> margins template ps = (0, 0)"
  by (simp add: margins_def)

lemma round_16: "Math_round 16 = 16"
  by (simp add: Math_round_def floor_eq_iff)


text \<open>
  C2. For a template of the print-margin set, each margin is the raw value of the payload
  (14 horizontally and 12 vertically when the payload has none) divided by 0.75 and rounded;
  for every other template both margins are 0, whatever the payload says.
\<close>

theorem C2_margins:
  "margins template pageSettings =
    (if template \<in> set PRINT_MARGIN_TEMPLATES
     then (round (raw_marginX pageSettings / (3 / 4)), round (raw_marginY pageSettings / (3 / 4)))
     else (0, 0))
   \<and> raw_marginX None = 14 \<and> raw_marginY None = 12
   \<and> raw_marginX (Some \<lparr>page_format = f, page_marginX = None, page_marginY = y\<rparr>) = 14
   \<and> raw_marginY (Some \<lparr>page_format = f, page_marginX = x, page_marginY = None\<rparr>) = 12
   \<and> raw_marginX (Some \<lparr>page_format = f, page_marginX = Some vx, page_marginY = y\<rparr>) = vx
   \<and> raw_marginY (Some \<lparr>page_format = f, page_marginX = x, page_marginY = Some vy\<rparr>) = vy"
  by (simp add: margins_def Math_round_is_round raw_marginX_def raw_marginY_def)

theorem C2_margins_witness:
  "margins ''onyx'' None = (19, 16)
   \<and> margins ''onyx'' (Some \<lparr>page_format = None, page_marginX = Some 50, page_marginY = Some 50\<rparr>) = (67, 67)
   \<and> margins ''ditto'' (Some \<lparr>page_format = None, page_marginX = Some 50, page_marginY = Some 50\<rparr>) = (0, 0)"
  using C2_margins [of "''onyx''" None]
    C2_margins [of "''onyx''" "Some \<lparr>page_format = None, page_marginX = Some 50, page_marginY = Some 50\<rparr>"]
    C2_margins [of "''ditto''" "Some \<lparr>page_format = None, page_marginX = Some 50, page_marginY = Some 50\<rparr>"]
  by (simp add: PRINT_MARGIN_TEMPLATES_def raw_marginX_def raw_marginY_def round_def floor_eq_iff)

subsection \<open>The geometry pass\<close>

lemma geometry_pass_fixed:
  "geometry_pass marginY False minPageHeight d =
    (None,
     (case parseFloat (currentHeight d) of
        None \<Rightarrow> d
      | Some h \<Rightarrow> set_page_height (max h (of_int minPageHeight) - of_int marginY) d)
     \<lparr>pageElements := map apply_breaks (pageElements d)\<rparr>)"
  by (simp add: geometry_pass_def Math_max_def Let_def set_page_height_def split: option.splits)

lemma geometry_pass_free:
  "geometry_pass marginY True minPageHeight d =
    (Some (max (total_height (set_marginBottom (of_int marginY * (3 / 4)) (pageElements d)))
            (of_int minPageHeight)),
     d\<lparr>pageElements := set_marginBottom (of_int marginY * (3 / 4)) (pageElements d)\<rparr>)"
  by (simp add: geometry_pass_def Let_def)

lemma total_height_three:
  "total_height [e1, e2, e3] =
    of_int (offsetHeight e1) + marginBottom_px e1 + (of_int (offsetHeight e2) + marginBottom_px e2)
    + (of_int (offsetHeight e3) + marginBottom_px e3)"
  by (simp add: total_height_def)

lemma dimensions_free_form:
  "dimensions_of ''free-form'' = Some \<lparr>width = 794, height = 1123\<rparr>"
  by (simp add: dimensions_of_def PAGE_DIMENSIONS_def)

lemma geometry_and_options_eq:
  "dimensions_of format = Some dims \<Longrightarrow>
    geometry_and_options template format pageSettings d =
      (snd (geometry_pass (snd (margins template pageSettings)) (format = ''free-form'')
              (height dims) d),
       \<lparr>opt_width = Px (of_int (width dims)),
        opt_height = Px (pdfHeight (format = ''free-form'')
          (fst (geometry_pass (snd (margins template pageSettings)) (format = ''free-form'')
                 (height dims) d))
          dims),
        opt_tagged = True,
        opt_waitForFonts = True,
        opt_printBackground = True,
        margin_bottom = 0,
        margin_top = snd (margins template pageSettings),
        margin_right = fst (margins template pageSettings),
        margin_left = fst (margins template pageSettings)\<rparr>)"
  by (simp add: geometry_and_options_def Let_def case_prod_beta)


text \<open>
  C3, for a page whose page-height property parses to a number. In a fixed-format run the
  pass returns \<open>null\<close>. It reads the page height from the container when the container has
  a non-empty value and from the document root otherwise; when that value parses to a
  number \<open>h\<close>, the property is set, on the container if there is one and on the root, to
  \<open>max(h, minPageHeight) - marginY\<close>; when it does not parse, the property is left as it
  was. Every page element whose page index is at least 1 gets a page break before it; an
  element of index 0 keeps the \<open>breakBefore\<close> it had; every element gets
  \<open>breakInside = auto\<close>.
\<close>

theorem C3_fixed_format_geometry:
  "geometry_pass marginY False minPageHeight d = (r, d') \<Longrightarrow>
     r = None
     \<and> (\<forall>h. parseFloat (currentHeight d) = Some h \<longrightarrow>
          root_page_height d' = Parsed (Some (max h (of_int minPageHeight) - of_int marginY))
          \<and> container_page_height d' =
              map_option (\<lambda>_. Parsed (Some (max h (of_int minPageHeight) - of_int marginY)))
                (container_page_height d))
     \<and> (parseFloat (currentHeight d) = None \<longrightarrow>
          root_page_height d' = root_page_height d
          \<and> container_page_height d' = container_page_height d)
     \<and> length (pageElements d') = length (pageElements d)
     \<and> (\<forall>i < length (pageElements d).
          (\<forall>k. data_page_index (pageElements d ! i) = Some k \<and> 1 \<le> k \<longrightarrow>
             breakBefore (pageElements d' ! i) = ''page'')
          \<and> (data_page_index (pageElements d ! i) = Some 0 \<longrightarrow>
               breakBefore (pageElements d' ! i) = breakBefore (pageElements d ! i))
          \<and> breakInside (pageElements d' ! i) = ''auto'')"
  by (auto simp add: geometry_pass_fixed set_page_height_def apply_breaks_def Let_def
      split: option.splits)

theorem C3_fixed_format_geometry_witness:
  "root_page_height (snd (geometry_pass 16 False 1123 example_dom)) = Parsed (Some 1107)
   \<and> container_page_height (snd (geometry_pass 16 False 1123 example_dom)) = Some (Parsed (Some 1107))
   \<and> breakBefore (pageElements (snd (geometry_pass 16 False 1123 example_dom)) ! 0) = []
   \<and> breakBefore (pageElements (snd (geometry_pass 16 False 1123 example_dom)) ! 1) = ''page''
   \<and> breakBefore (pageElements (snd (geometry_pass 16 False 1123 example_dom)) ! 2) = ''page''"
proof -
  have h: "parseFloat (currentHeight example_dom) = Some 1123"
    by (simp add: currentHeight_def parseFloat_def example_dom_def)
  have e: "pageElements example_dom = [example_page 0 500, example_page 1 600, example_page 2 400]"
    by (simp add: example_dom_def)
  have c: "container_page_height example_dom = Some (Parsed (Some 1123))"
    by (simp add: example_dom_def)
  have p: "geometry_pass 16 False 1123 example_dom =
      (fst (geometry_pass 16 False 1123 example_dom), snd (geometry_pass 16 False 1123 example_dom))"
    by simp
  show ?thesis
    using C3_fixed_format_geometry [OF p]
    by (simp add: h e c example_page_def nth_Cons')
qed

text \<open>A page without the property: the pass sets no page height.\<close>

theorem C3_counterexample:
  "root_page_height (snd (geometry_pass 16 False 1123 unsized_dom)) = Blank
   \<and> container_page_height (snd (geometry_pass 16 False 1123 unsized_dom)) = None"
  by (simp add: geometry_pass_fixed unsized_dom_def currentHeight_def parseFloat_def)

lemma free_form_three:
  assumes "pageElements d = [e1, e2, e3]"
    and "offsetHeight e1 = 500" and "offsetHeight e2 = 600" and "offsetHeight e3 = 400"
    and "marginBottom_px e3 = 0"
  shows "fst (geometry_pass marginY True minPageHeight d) =
    Some (max (1500 + 2 * (of_int marginY * (3 / 4))) (of_int minPageHeight))"
  using assms
  by (simp add: geometry_pass_free total_height_three marginBottom_px_def parseFloat_def)

text \<open>
  C4, with the spacing the script computes. In a free-form run on three page elements of
  heights 500, 600 and 400, the last without a bottom margin, and a payload whose vertical
  margin is 12 raw units: for a template of the print-margin set the margin is 16 pixels,
  the spacing set on the first two elements is \<open>16 * 0.75 = 12\<close> pixels, the total is
  \<open>500 + 12 + 600 + 12 + 400 = 1524\<close>, the pass returns \<open>max(1524, minPageHeight)\<close> and the
  PDF is 1524 pixels high; for any other template the margin and the spacing are 0, the
  total is 1500 and the PDF is 1500 pixels high.
\<close>

theorem C4_free_form_total:
  assumes "pageElements d = [e1, e2, e3]"
    and "offsetHeight e1 = 500" and "offsetHeight e2 = 600" and "offsetHeight e3 = 400"
    and "marginBottom_px e3 = 0"
    and "page_marginY ps = Some 12"
  shows "(template \<in> set PRINT_MARGIN_TEMPLATES \<longrightarrow>
            snd (margins template (Some ps)) = 16
            \<and> fst (geometry_pass 16 True minPageHeight d) = Some (max 1524 (of_int minPageHeight))
            \<and> opt_height (snd (geometry_and_options template ''free-form'' (Some ps) d)) = Px 1524)
         \<and> (template \<notin> set PRINT_MARGIN_TEMPLATES \<longrightarrow>
              snd (margins template (Some ps)) = 0
              \<and> fst (geometry_pass 0 True minPageHeight d) = Some (max 1500 (of_int minPageHeight))
              \<and> opt_height (snd (geometry_and_options template ''free-form'' (Some ps) d)) = Px 1500)"
proof (intro conjI impI)
  assume t: "template \<in> set PRINT_MARGIN_TEMPLATES"
  show m: "snd (margins template (Some ps)) = 16"
    using t assms(6) by (simp add: margins_print raw_marginY_def round_16)
  show "fst (geometry_pass 16 True minPageHeight d) = Some (max 1524 (of_int minPageHeight))"
    using free_form_three [OF assms(1-5), of 16 minPageHeight] by simp
  have "fst (geometry_pass 16 True 1123 d) = Some 1524"
    using free_form_three [OF assms(1-5), of 16 1123] by simp
  then show "opt_height (snd (geometry_and_options template ''free-form'' (Some ps) d)) = Px 1524"
    using m by (simp add: geometry_and_options_eq [OF dimensions_free_form] pdfHeight_def)
next
  assume t: "template \<notin> set PRINT_MARGIN_TEMPLATES"
  show m: "snd (margins template (Some ps)) = 0"
    using t by (simp add: margins_other)
  show "fst (geometry_pass 0 True minPageHeight d) = Some (max 1500 (of_int minPageHeight))"
    using free_form_three [OF assms(1-5), of 0 minPageHeight] by simp
  have "fst (geometry_pass 0 True 1123 d) = Some 1500"
    using free_form_three [OF assms(1-5), of 0 1123] by simp
  then show "opt_height (snd (geometry_and_options template ''free-form'' (Some ps) d)) = Px 1500"
    using m by (simp add: geometry_and_options_eq [OF dimensions_free_form] pdfHeight_def)
qed

theorem C4_free_form_total_witness:
  "snd (margins ''onyx''
         (Some \<lparr>page_format = Some ''free-form'', page_marginX = None, page_marginY = Some 12\<rparr>)) = 16
   \<and> fst (geometry_pass 16 True 1123 example_dom) = Some 1524"
  using C4_free_form_total [of example_dom "example_page 0 500" "example_page 1 600"
      "example_page 2 400"
      "\<lparr>page_format = Some ''free-form'', page_marginX = None, page_marginY = Some 12\<rparr>"
      "''onyx''" 1123]
  by (simp add: example_dom_def example_page_def marginBottom_px_def parseFloat_def
      PRINT_MARGIN_TEMPLATES_def)

text \<open>The scenario itself: the total is 1524 for the template \<open>onyx\<close> and 1500 for the
  template \<open>ditto\<close>, and in neither case 1518.\<close>

theorem C4_counterexample:
  "fst (geometry_pass
         (snd (margins ''onyx''
                (Some \<lparr>page_format = Some ''free-form'', page_marginX = None, page_marginY = Some 12\<rparr>)))
         True 1123 example_dom) = Some 1524
   \<and> opt_height (snd (geometry_and_options ''onyx'' ''free-form''
         (Some \<lparr>page_format = Some ''free-form'', page_marginX = None, page_marginY = Some 12\<rparr>)
         example_dom)) = Px 1524
   \<and> opt_height (snd (geometry_and_options ''ditto'' ''free-form''
         (Some \<lparr>page_format = Some ''free-form'', page_marginX = None, page_marginY = Some 12\<rparr>)
         example_dom)) = Px 1500"
proof -
  let ?ps = "Some \<lparr>page_format = Some ''free-form'', page_marginX = None, page_marginY = Some 12\<rparr>"
  have m: "margins ''onyx'' ?ps = (19, 16)"
    by (simp add: margins_def PRINT_MARGIN_TEMPLATES_def raw_marginY_def raw_marginX_def
        Math_round_def floor_eq_iff)
  have m': "margins ''ditto'' ?ps = (0, 0)"
    by (simp add: margins_def PRINT_MARGIN_TEMPLATES_def)
  have g: "geometry_pass 16 True 1123 example_dom =
      (Some 1524, example_dom\<lparr>pageElements := set_marginBottom 12 (pageElements example_dom)\<rparr>)"
    by (simp add: geometry_pass_free example_dom_def example_page_def total_height_three
        marginBottom_px_def parseFloat_def)
  have g': "geometry_pass 0 True 1123 example_dom =
      (Some 1500, example_dom\<lparr>pageElements := set_marginBottom 0 (pageElements example_dom)\<rparr>)"
    by (simp add: geometry_pass_free example_dom_def example_page_def total_height_three
        marginBottom_px_def parseFloat_def)
  show ?thesis
    by (simp add: m m' g g' geometry_and_options_eq [OF dimensions_free_form] pdfHeight_def)
qed

subsection \<open>Overrides\<close>

text \<open>Without \<open>metadata\<close> both overrides are dropped; without \<open>metadata.page\<close> the
  format override is.\<close>

lemma overrides_dropped:
  "resume_metadata r = None \<Longrightarrow> apply_overrides args r = r"
  "resume_metadata r = Some m \<Longrightarrow> meta_page m = None \<Longrightarrow>
    effective_format (apply_overrides args r) = ''a4''"
  by (simp_all add: apply_overrides_def effective_format_def pageSettings_of_def Let_def)

text \<open>
  C5, for a payload that has the object the override is written into. When the payload has
  a \<open>metadata\<close> object and a non-empty \<open>--template\<close> is given, the effective template is
  the override; when moreover \<open>metadata.page\<close> is an object and a non-empty \<open>--format\<close> is
  given, the effective format is the override.
\<close>

theorem C5_overrides_win_when_present:
  "(resume_metadata r = Some m \<and> template_opt args = Some t \<and> t \<noteq> [] \<longrightarrow>
      effective_template (apply_overrides args r) = t)
   \<and> (resume_metadata r = Some m \<and> meta_page m = Some p \<and> format_opt args = Some f \<and> f \<noteq> [] \<longrightarrow>
        effective_format (apply_overrides args r) = f)"
  by (auto simp add: apply_overrides_def effective_template_def effective_format_def
      pageSettings_of_def truthy_def Let_def split: option.splits)

theorem C5_overrides_win_when_present_witness:
  "effective_template (apply_overrides override_cli example_resume) = ''pikachu''
   \<and> effective_format (apply_overrides override_cli example_resume) = ''letter''"
  using C5_overrides_win_when_present [of example_resume
      "\<lparr>meta_template = Some ''onyx'',
        meta_page = Some \<lparr>page_format = Some ''a4'', page_marginX = Some 14, page_marginY = Some 12\<rparr>\<rparr>"
      override_cli "''pikachu''"
      "\<lparr>page_format = Some ''a4'', page_marginX = Some 14, page_marginY = Some 12\<rparr>" "''letter''"]
  by (simp add: example_resume_def override_cli_def)

text \<open>A payload without \<open>metadata\<close>: both overrides are dropped, and the run uses the
  defaults. A payload with \<open>metadata\<close> and without \<open>metadata.page\<close>: the format override
  is dropped.\<close>

theorem C5_counterexample:
  "effective_template (apply_overrides override_cli bare_resume) = ''onyx''
   \<and> effective_template (apply_overrides override_cli bare_resume) \<noteq> ''pikachu''
   \<and> effective_format (apply_overrides override_cli bare_resume) = ''a4''
   \<and> effective_format (apply_overrides override_cli unknown_template_resume) = ''a4''
   \<and> effective_format (apply_overrides override_cli unknown_template_resume) \<noteq> ''letter''"
  by (simp add: apply_overrides_def effective_template_def effective_format_def
      pageSettings_of_def bare_resume_def unknown_template_resume_def override_cli_def
      truthy_def Let_def)

subsection \<open>Validation of the command line\<close>

lemma no_overrides_identity:
  "\<not> truthy (template_opt args) \<Longrightarrow> \<not> truthy (format_opt args) \<Longrightarrow> apply_overrides args r = r"
  by (simp add: apply_overrides_def Let_def split: option.splits)

lemma script_validated:
  assumes "\<not> help_flag args" and "positionals args = p0 # rest"
    and "\<forall>t'. template_opt args = Some t' \<and> t' \<noteq> [] \<longrightarrow> t' \<in> set VALID_TEMPLATES"
    and "\<forall>f'. format_opt args = Some f' \<and> f' \<noteq> [] \<longrightarrow> f' \<in> set VALID_FORMATS"
    and "sys_readJson s (inputPath (sys_resolve s) p0) = Some r"
  shows "script s args =
    (main s (effective_template (apply_overrides args r)) (effective_format (apply_overrides args r))
       (pageSettings_of (apply_overrides args r)) (outputPath (sys_resolve s) p0 rest))
    \<lparr>input_read := True\<rparr>"
proof -
  have t: "\<not> (truthy (template_opt args) \<and> the (template_opt args) \<notin> set VALID_TEMPLATES)"
    using assms(3) by (cases "template_opt args") (auto simp add: truthy_def)
  have f: "\<not> (truthy (format_opt args) \<and> the (format_opt args) \<notin> set VALID_FORMATS)"
    using assms(4) by (cases "format_opt args") (auto simp add: truthy_def)
  show ?thesis
    using assms(1,2,5) t f by (auto simp add: script_def Let_def)
qed

lemma script_rejected:
  assumes "\<not> help_flag args"
    and "(template_opt args = Some t \<and> t \<noteq> [] \<and> t \<notin> set VALID_TEMPLATES)
         \<or> (format_opt args = Some f \<and> f \<noteq> [] \<and> f \<notin> set VALID_FORMATS)"
  shows "\<exists>e. script s args = exited 1 (Some e)"
  using assms by (auto simp add: script_def truthy_def Let_def)

text \<open>
  C6, for the overrides alone. When \<open>--help\<close> is not given, a non-empty \<open>--template\<close> that
  is not one of \<open>VALID_TEMPLATES\<close>, or a non-empty \<open>--format\<close> that is not one of
  \<open>VALID_FORMATS\<close>, ends the process with code 1 before the input is read, before the
  server is spawned, before a browser is acquired and without a file written; the failure
  is the usage error when no input file is named, the invalid template when the template
  is the unknown one, and the invalid format otherwise. The template and the format of the
  payload itself are not validated: when every non-empty override is a valid one and the
  input is read, \<open>main\<close> runs with the effective template and format of the merged
  payload, whatever they are, and without overrides the merged payload is the payload.
\<close>

theorem C6_override_validation:
  "(\<not> help_flag args
      \<and> ((template_opt args = Some t \<and> t \<noteq> [] \<and> t \<notin> set VALID_TEMPLATES)
           \<or> (format_opt args = Some f \<and> f \<noteq> [] \<and> f \<notin> set VALID_FORMATS)) \<longrightarrow>
        exit_code (script s args) = 1
        \<and> \<not> input_read (script s args)
        \<and> \<not> server_spawned (script s args)
        \<and> \<not> browser_acquired (script s args)
        \<and> written (script s args) = None
        \<and> (positionals args = [] \<longrightarrow> failure (script s args) = Some Usage)
        \<and> (positionals args \<noteq> [] \<and> template_opt args = Some t \<and> t \<noteq> [] \<and> t \<notin> set VALID_TEMPLATES \<longrightarrow>
             failure (script s args) = Some (InvalidTemplate t))
        \<and> (positionals args \<noteq> []
             \<and> (\<forall>t'. template_opt args = Some t' \<and> t' \<noteq> [] \<longrightarrow> t' \<in> set VALID_TEMPLATES)
             \<and> format_opt args = Some f \<and> f \<noteq> [] \<and> f \<notin> set VALID_FORMATS \<longrightarrow>
             failure (script s args) = Some (InvalidFormat f)))
   \<and> (\<not> help_flag args \<and> positionals args = p0 # rest
        \<and> (\<forall>t'. template_opt args = Some t' \<and> t' \<noteq> [] \<longrightarrow> t' \<in> set VALID_TEMPLATES)
        \<and> (\<forall>f'. format_opt args = Some f' \<and> f' \<noteq> [] \<longrightarrow> f' \<in> set VALID_FORMATS)
        \<and> sys_readJson s (inputPath (sys_resolve s) p0) = Some r \<longrightarrow>
          script s args =
            (main s (effective_template (apply_overrides args r))
               (effective_format (apply_overrides args r))
               (pageSettings_of (apply_overrides args r)) (outputPath (sys_resolve s) p0 rest))
            \<lparr>input_read := True\<rparr>)
   \<and> (\<not> truthy (template_opt args) \<and> \<not> truthy (format_opt args) \<longrightarrow> apply_overrides args r = r)"
proof (intro conjI impI)
  assume a: "\<not> help_flag args
      \<and> ((template_opt args = Some t \<and> t \<noteq> [] \<and> t \<notin> set VALID_TEMPLATES)
           \<or> (format_opt args = Some f \<and> f \<noteq> [] \<and> f \<notin> set VALID_FORMATS))"
  then obtain e where e: "script s args = exited 1 (Some e)"
    using script_rejected [of args t f s] by blast
  show "exit_code (script s args) = 1" by (simp add: e exited_def)
  show "\<not> input_read (script s args)" by (simp add: e exited_def)
  show "\<not> server_spawned (script s args)" by (simp add: e exited_def)
  show "\<not> browser_acquired (script s args)" by (simp add: e exited_def)
  show "written (script s args) = None" by (simp add: e exited_def)
  show "failure (script s args) = Some Usage" if "positionals args = []"
    using a that by (simp add: script_def exited_def)
  show "failure (script s args) = Some (InvalidTemplate t)"
    if "positionals args \<noteq> [] \<and> template_opt args = Some t \<and> t \<noteq> [] \<and> t \<notin> set VALID_TEMPLATES"
    using a that by (simp add: script_def truthy_def Let_def exited_def)
  show "failure (script s args) = Some (InvalidFormat f)"
    if b: "positionals args \<noteq> []
        \<and> (\<forall>t'. template_opt args = Some t' \<and> t' \<noteq> [] \<longrightarrow> t' \<in> set VALID_TEMPLATES)
        \<and> format_opt args = Some f \<and> f \<noteq> [] \<and> f \<notin> set VALID_FORMATS"
  proof -
    have "\<not> (truthy (template_opt args) \<and> the (template_opt args) \<notin> set VALID_TEMPLATES)"
      using b by (cases "template_opt args") (auto simp add: truthy_def)
    then show ?thesis
      using a b by (simp add: script_def truthy_def Let_def exited_def)
  qed
next
  assume "\<not> help_flag args \<and> positionals args = p0 # rest
      \<and> (\<forall>t'. template_opt args = Some t' \<and> t' \<noteq> [] \<longrightarrow> t' \<in> set VALID_TEMPLATES)
      \<and> (\<forall>f'. format_opt args = Some f' \<and> f' \<noteq> [] \<longrightarrow> f' \<in> set VALID_FORMATS)
      \<and> sys_readJson s (inputPath (sys_resolve s) p0) = Some r"
  then show "script s args =
      (main s (effective_template (apply_overrides args r))
         (effective_format (apply_overrides args r))
         (pageSettings_of (apply_overrides args r)) (outputPath (sys_resolve s) p0 rest))
      \<lparr>input_read := True\<rparr>"
    using script_validated [of args p0 rest s r] by blast
next
  assume "\<not> truthy (template_opt args) \<and> \<not> truthy (format_opt args)"
  then show "apply_overrides args r = r"
    by (simp add: no_overrides_identity)
qed

text \<open>An unknown template on the command line, and a payload whose format is not one of
  \<open>VALID_FORMATS\<close>, which reaches \<open>main\<close> as it is.\<close>

theorem C6_override_validation_witness:
  "exit_code (script (example_sys example_resume) bogus_cli) = 1
   \<and> \<not> input_read (script (example_sys example_resume) bogus_cli)
   \<and> \<not> server_spawned (script (example_sys example_resume) bogus_cli)
   \<and> failure (script (example_sys example_resume) bogus_cli) = Some (InvalidTemplate ''bogus'')
   \<and> script (example_sys unknown_format_resume) example_cli =
       (main (example_sys unknown_format_resume) ''onyx'' ''legal''
          (pageSettings_of unknown_format_resume) ''/work/resume.pdf'')
       \<lparr>input_read := True\<rparr>"
proof -
  have b: "\<not> help_flag bogus_cli" "template_opt bogus_cli = Some ''bogus''"
    "positionals bogus_cli \<noteq> []"
    by (simp_all add: bogus_cli_def)
  have v: "''bogus'' \<notin> set VALID_TEMPLATES"
    by (simp add: VALID_TEMPLATES_def)
  have c: "\<not> help_flag example_cli" "positionals example_cli = [''resume.json'']"
    "template_opt example_cli = None" "format_opt example_cli = None"
    by (simp_all add: example_cli_def)
  have r: "sys_readJson (example_sys unknown_format_resume)
      (inputPath (sys_resolve (example_sys unknown_format_resume)) ''resume.json'')
      = Some unknown_format_resume"
    by (simp add: example_sys_def inputPath_def)
  have o: "outputPath (sys_resolve (example_sys unknown_format_resume)) ''resume.json'' []
      = ''/work/resume.pdf''"
    by (simp add: example_sys_def outputPath_def replace_json_ext_def matches_dot_json_def Let_def)
  have t: "effective_template unknown_format_resume = ''onyx''"
    by (simp add: effective_template_def unknown_format_resume_def)
  have f: "effective_format unknown_format_resume = ''legal''"
    by (simp add: effective_format_def pageSettings_of_def unknown_format_resume_def)
  show ?thesis
    using C6_override_validation [of bogus_cli "''bogus''" "[]" "example_sys example_resume"
        "''resume.json''" "[]" example_resume]
      C6_override_validation [of example_cli "[]" "[]" "example_sys unknown_format_resume"
        "''resume.json''" "[]" unknown_format_resume]
    by (simp add: b v c r o t f truthy_def)
qed

text \<open>A payload whose template is \<open>foo\<close>, and one whose format is \<open>legal\<close>, run to the end
  and write their PDF; with \<open>--help\<close> an unknown override ends the process with code 0; an
  empty override is not checked.\<close>

theorem C6_counterexample:
  "effective_template unknown_template_resume = ''foo''
   \<and> ''foo'' \<notin> set VALID_TEMPLATES
   \<and> exit_code (script (example_sys unknown_template_resume) example_cli) = 0
   \<and> server_spawned (script (example_sys unknown_template_resume) example_cli)
   \<and> written (script (example_sys unknown_template_resume) example_cli) = Some ''/work/resume.pdf''
   \<and> effective_format unknown_format_resume = ''legal''
   \<and> ''legal'' \<notin> set VALID_FORMATS
   \<and> exit_code (script (example_sys unknown_format_resume) example_cli) = 0
   \<and> written (script (example_sys unknown_format_resume) example_cli) = Some ''/work/resume.pdf''
   \<and> exit_code (script (example_sys example_resume)
        \<lparr>help_flag = True, positionals = [''resume.json''], template_opt = Some ''bogus'',
         format_opt = None\<rparr>) = 0
   \<and> server_spawned (script (example_sys example_resume)
        \<lparr>help_flag = False, positionals = [''resume.json''], template_opt = Some [],
         format_opt = None\<rparr>)"
proof -
  have t: "effective_template unknown_template_resume = ''foo''"
    by (simp add: unknown_template_resume_def effective_template_def)
  have v: "''foo'' \<notin> set VALID_TEMPLATES"
    by (simp add: VALID_TEMPLATES_def)
  have f: "effective_format unknown_format_resume = ''legal''"
    by (simp add: effective_format_def pageSettings_of_def unknown_format_resume_def)
  have v': "''legal'' \<notin> set VALID_FORMATS"
    by (simp add: VALID_FORMATS_def)
  have r: "script (example_sys p) example_cli =
      (with_browser (example_sys p) (effective_template p) (effective_format p) (pageSettings_of p)
        ''/work/resume.pdf'')\<lparr>input_read := True\<rparr>" for p
    by (simp add: example_script example_main)
  have h: "exit_code (script (example_sys example_resume)
        \<lparr>help_flag = True, positionals = [''resume.json''], template_opt = Some ''bogus'',
         format_opt = None\<rparr>) = 0"
    by (simp add: script_def exited_def)
  have rj: "sys_readJson (example_sys example_resume)
      (inputPath (sys_resolve (example_sys example_resume)) ''resume.json'') = Some example_resume"
    by (simp add: example_sys_def inputPath_def)
  have e: "server_spawned (script (example_sys example_resume)
        \<lparr>help_flag = False, positionals = [''resume.json''], template_opt = Some [],
         format_opt = None\<rparr>)"
    by (simp add: script_def truthy_def Let_def rj example_main example_with_browser)
  show ?thesis
    unfolding r example_with_browser using t v f v' h e by simp
qed

subsection \<open>The call of \<open>page.pdf\<close>\<close>

lemma pdf_call_try_block:
  "pdf_call (try_block s t f ps outPath out) = Some opts \<Longrightarrow> pdf_call out = None \<Longrightarrow>
    opts = snd (geometry_and_options t f ps (sys_page_dom s))
    \<and> dom_after (try_block s t f ps outPath out) = Some (fst (geometry_and_options t f ps (sys_page_dom s)))"
  by (simp add: try_block_def Let_def case_prod_beta split: if_splits)

lemma pdf_call_with_browser:
  "pdf_call (with_browser s t f ps outPath) = Some opts \<Longrightarrow>
    opts = snd (geometry_and_options t f ps (sys_page_dom s))
    \<and> dom_after (with_browser s t f ps outPath) = Some (fst (geometry_and_options t f ps (sys_page_dom s)))"
  using pdf_call_try_block [of s t f ps outPath "spawned\<lparr>browser_acquired := True\<rparr>" opts]
  by (simp add: with_browser_def)

lemma pdf_call_main:
  assumes "pdf_call (main s t f ps outPath) = Some opts"
  shows "opts = snd (geometry_and_options t f ps (sys_page_dom s))
    \<and> dom_after (main s t f ps outPath) = Some (fst (geometry_and_options t f ps (sys_page_dom s)))"
proof -
  from assms have "main s t f ps outPath = with_browser s t f ps outPath"
    by (auto simp add: main_def Let_def split: sum.splits if_splits option.splits)
  with assms show ?thesis
    using pdf_call_with_browser [of s t f ps outPath opts] by simp
qed








subsection \<open>Determinism of the geometry\<close>

text \<open>
  C8. The geometry is a function of the template, the format, the margins of the payload
  and the rendered page alone: two runs that reach \<open>page.pdf\<close> with the same template,
  format and page settings on the same page give \<open>page.pdf\<close> the same options and leave
  the same page, whatever else differs between them (the port, the address of the server,
  the environment, a local or a remote browser, the output path).
\<close>

theorem C8_geometry_deterministic:
  assumes "pdf_call (main s1 template format pageSettings outPath1) = Some opts1"
    and "pdf_call (main s2 template format pageSettings outPath2) = Some opts2"
    and "sys_page_dom s1 = sys_page_dom s2"
  shows "opts1 = opts2
    \<and> dom_after (main s1 template format pageSettings outPath1)
        = dom_after (main s2 template format pageSettings outPath2)"
  using pdf_call_main [OF assms(1)] pdf_call_main [OF assms(2)] assms(3) by simp

theorem C8_geometry_deterministic_witness:
  "dom_after (main (example_sys example_resume) ''onyx'' ''letter'' None ''/work/a.pdf'')
    = dom_after (main remote_sys ''onyx'' ''letter'' None ''/work/b.pdf'')
   \<and> pdf_call (main (example_sys example_resume) ''onyx'' ''letter'' None ''/work/a.pdf'')
    = pdf_call (main remote_sys ''onyx'' ''letter'' None ''/work/b.pdf'')"
proof -
  have a: "pdf_call (main (example_sys example_resume) ''onyx'' ''letter'' None ''/work/a.pdf'')
      = Some (snd (geometry_and_options ''onyx'' ''letter'' None example_dom))"
    by (simp add: example_main example_with_browser)
  have b: "pdf_call (main remote_sys ''onyx'' ''letter'' None ''/work/b.pdf'')
      = Some (snd (geometry_and_options ''onyx'' ''letter'' None example_dom))"
    by (rule remote_main)
  have d: "sys_page_dom (example_sys example_resume) = sys_page_dom remote_sys"
    by (simp add: remote_sys_def)
  show ?thesis
    using C8_geometry_deterministic [OF a b d] a b by simp
qed

subsection \<open>Finding the browser\<close>

text \<open>
  C9. When \<open>CHROME_PATH\<close> is set to a path that does not exist, the result is that of
  probing the candidates of the platform; and the result is \<open>null\<close> exactly when
  \<open>CHROME_PATH\<close>, if set to a non-empty path, names no existing file and no candidate of
  the platform exists.
\<close>

theorem C9_findSystemChrome:
  "(env ''CHROME_PATH'' = Some p \<and> \<not> existsSync p \<longrightarrow>
      findSystemChrome env platform existsSync = find existsSync (candidates env platform))
   \<and> (findSystemChrome env platform existsSync = None \<longleftrightarrow>
        (\<forall>q. env ''CHROME_PATH'' = Some q \<and> q \<noteq> [] \<longrightarrow> \<not> existsSync q)
        \<and> (\<forall>c \<in> set (candidates env platform). \<not> existsSync c))"
  by (auto simp add: findSystemChrome_def find_None_iff split: option.splits)

theorem C9_findSystemChrome_witness:
  "findSystemChrome [''CHROME_PATH'' \<mapsto> ''/opt/chrome''] ''linux'' (\<lambda>p. p = ''/snap/bin/chromium'')
    = Some ''/snap/bin/chromium''
   \<and> findSystemChrome [''CHROME_PATH'' \<mapsto> ''/opt/chrome''] ''linux'' (\<lambda>p. False) = None"
  using C9_findSystemChrome [of "[''CHROME_PATH'' \<mapsto> ''/opt/chrome'']" "''/opt/chrome''"
      "\<lambda>p. p = ''/snap/bin/chromium''" "''linux''"]
    C9_findSystemChrome [of "[''CHROME_PATH'' \<mapsto> ''/opt/chrome'']" "''/opt/chrome''"
      "\<lambda>p. False" "''linux''"]
  by (simp add: candidates_def)

subsection \<open>The default output path\<close>

lemma ascii_lower_eq_iff:
  assumes "(of_char l :: nat) \<in> {97..122}"
  shows "ascii_lower c = l \<longleftrightarrow> c = l \<or> c = char_of ((of_char l :: nat) - 32)"
proof (cases "65 \<le> (of_char c :: nat) \<and> (of_char c :: nat) \<le> 90")
  case True
  then have lo: "ascii_lower c = char_of ((of_char c :: nat) + 32)"
    by (simp add: ascii_lower_def Let_def)
  have "c \<noteq> l" using True assms by auto
  moreover have "char_of ((of_char c :: nat) + 32) = l \<longleftrightarrow> c = char_of ((of_char l :: nat) - 32)"
  proof
    assume "char_of ((of_char c :: nat) + 32) = l"
    then have "(of_char l :: nat) = ((of_char c :: nat) + 32) mod 256"
      by (metis of_char_of)
    then have "(of_char l :: nat) = (of_char c :: nat) + 32" using True by simp
    then have "(of_char c :: nat) = (of_char l :: nat) - 32" by simp
    then show "c = char_of ((of_char l :: nat) - 32)"
      by (metis char_of_comp_of_char comp_apply id_apply)
  next
    assume "c = char_of ((of_char l :: nat) - 32)"
    then have "(of_char c :: nat) = ((of_char l :: nat) - 32) mod 256" by (simp add: of_char_of)
    moreover have "(of_char l :: nat) - 32 < 256" using assms by auto
    ultimately have "(of_char c :: nat) = (of_char l :: nat) - 32" by simp
    then have "(of_char c :: nat) + 32 = of_char l" using assms by simp
    then show "char_of ((of_char c :: nat) + 32) = l" by simp
  qed
  ultimately show ?thesis using lo by simp
next
  case False
  then have lo: "ascii_lower c = c" by (auto simp add: ascii_lower_def Let_def)
  have "c \<noteq> char_of ((of_char l :: nat) - 32)"
  proof
    assume "c = char_of ((of_char l :: nat) - 32)"
    then have "(of_char c :: nat) = ((of_char l :: nat) - 32) mod 256" by (simp add: of_char_of)
    moreover have "(of_char l :: nat) - 32 < 256" using assms by auto
    ultimately have "(of_char c :: nat) = (of_char l :: nat) - 32" by simp
    then show False using False assms by auto
  qed
  then show ?thesis using lo by auto
qed

lemma upper_chars:
  "char_of (74 :: nat) = CHR ''J''" "char_of (83 :: nat) = CHR ''S''"
  "char_of (79 :: nat) = CHR ''O''" "char_of (78 :: nat) = CHR ''N''"
  by code_simp+

lemma lower_j: "ascii_lower c = CHR ''j'' \<longleftrightarrow> c = CHR ''j'' \<or> c = CHR ''J''"
  using ascii_lower_eq_iff [of "CHR ''j''" c] by (simp add: upper_chars)

lemma lower_s: "ascii_lower c = CHR ''s'' \<longleftrightarrow> c = CHR ''s'' \<or> c = CHR ''S''"
  using ascii_lower_eq_iff [of "CHR ''s''" c] by (simp add: upper_chars)

lemma lower_o: "ascii_lower c = CHR ''o'' \<longleftrightarrow> c = CHR ''o'' \<or> c = CHR ''O''"
  using ascii_lower_eq_iff [of "CHR ''o''" c] by (simp add: upper_chars)

lemma lower_n: "ascii_lower c = CHR ''n'' \<longleftrightarrow> c = CHR ''n'' \<or> c = CHR ''N''"
  using ascii_lower_eq_iff [of "CHR ''n''" c] by (simp add: upper_chars)

lemma lower_dot: "ascii_lower c = CHR ''.'' \<longleftrightarrow> c = CHR ''.''"
proof (cases "65 \<le> (of_char c :: nat) \<and> (of_char c :: nat) \<le> 90")
  case True
  then have "ascii_lower c = char_of ((of_char c :: nat) + 32)"
    by (simp add: ascii_lower_def Let_def)
  then have "(of_char (ascii_lower c) :: nat) = ((of_char c :: nat) + 32) mod 256"
    by (simp add: of_char_of)
  then have "(of_char (ascii_lower c) :: nat) = (of_char c :: nat) + 32" using True by simp
  then have "ascii_lower c \<noteq> CHR ''.''" using True by auto
  moreover have "c \<noteq> CHR ''.''" using True by auto
  ultimately show ?thesis by simp
next
  case False
  then show ?thesis by (auto simp add: ascii_lower_def Let_def)
qed

text \<open>The regular expression and the words agree on every string.\<close>

lemma matches_dot_json_iff: "matches_dot_json t \<longleftrightarrow> map ascii_lower t = ''.json''"
proof (cases t)
  case Nil then show ?thesis by (simp add: matches_dot_json_def)
next
  case (Cons c0 t1)
  show ?thesis proof (cases t1)
    case Nil with Cons show ?thesis by (simp add: matches_dot_json_def)
  next
    case (Cons c1 t2) note C1 = this
    show ?thesis proof (cases t2)
      case Nil with C1 \<open>t = c0 # t1\<close> show ?thesis by (simp add: matches_dot_json_def)
    next
      case (Cons c2 t3) note C2 = this
      show ?thesis proof (cases t3)
        case Nil with C1 C2 \<open>t = c0 # t1\<close> show ?thesis by (simp add: matches_dot_json_def)
      next
        case (Cons c3 t4) note C3 = this
        show ?thesis proof (cases t4)
          case Nil with C1 C2 C3 \<open>t = c0 # t1\<close> show ?thesis by (simp add: matches_dot_json_def)
        next
          case (Cons c4 t5) note C4 = this
          show ?thesis
          proof (cases t5)
            case Nil
            with C1 C2 C3 C4 \<open>t = c0 # t1\<close> show ?thesis
              by (simp add: matches_dot_json_def lower_j lower_s lower_o lower_n lower_dot)
          next
            case (Cons c5 t6)
            with C1 C2 C3 C4 \<open>t = c0 # t1\<close> show ?thesis by (simp add: matches_dot_json_def)
          qed
        qed
      qed
    qed
  qed
qed

lemma ends_with_dot_json_iff:
  "ends_with_dot_json p \<longleftrightarrow> 5 \<le> length p \<and> matches_dot_json (drop (length p - 5) p)"
proof
  assume "ends_with_dot_json p"
  then obtain stem ext where p: "p = stem @ ext" and e: "map ascii_lower ext = ''.json''"
    by (auto simp add: ends_with_dot_json_def)
  from e have "length (map ascii_lower ext) = 5" by simp
  then have len: "length ext = 5" by simp
  with p have "drop (length p - 5) p = ext" by simp
  with p len e show "5 \<le> length p \<and> matches_dot_json (drop (length p - 5) p)"
    by (simp add: matches_dot_json_iff)
next
  assume a: "5 \<le> length p \<and> matches_dot_json (drop (length p - 5) p)"
  have "p = take (length p - 5) p @ drop (length p - 5) p" by simp
  moreover from a have "map ascii_lower (drop (length p - 5) p) = ''.json''"
    by (simp add: matches_dot_json_iff)
  ultimately show "ends_with_dot_json p"
    unfolding ends_with_dot_json_def by (intro exI conjI)
qed

lemma replace_json_ext_suffix:
  assumes "map ascii_lower ext = ''.json''"
  shows "replace_json_ext (stem @ ext) = stem @ ''.pdf''"
proof -
  from assms have "length (map ascii_lower ext) = 5" by simp
  then have len: "length ext = 5" by simp
  with assms show ?thesis
    by (simp add: replace_json_ext_def Let_def matches_dot_json_iff)
qed

lemma replace_json_ext_other: "\<not> ends_with_dot_json p \<Longrightarrow> replace_json_ext p = p"
  by (auto simp add: replace_json_ext_def Let_def ends_with_dot_json_iff)

lemma written_try_block:
  "written (try_block s t f ps outPath out) = Some w \<Longrightarrow> written out = None \<Longrightarrow> w = outPath"
  by (simp add: try_block_def Let_def split: if_splits prod.splits)

lemma written_with_browser: "written (with_browser s t f ps outPath) = Some w \<Longrightarrow> w = outPath"
  by (simp add: with_browser_def written_try_block)

lemma written_main: "written (main s t f ps outPath) = Some w \<Longrightarrow> w = outPath"
  by (simp add: main_def Let_def written_with_browser split: sum.splits if_splits option.splits)

lemma written_script:
  "written (script s args) = Some w \<Longrightarrow>
    w = outputPath (sys_resolve s) (hd (positionals args)) (tl (positionals args))"
  by (simp add: script_def Let_def exited_def written_main split: if_splits option.splits)

text \<open>
  C10. With no output argument, an input name that ends in \<open>.json\<close> in any letter case
  gives the output path of the name with that ending replaced by \<open>.pdf\<close>; an input name
  that does not end so gives an output path equal to the input path, and the file a run
  writes is then the file it has read.
\<close>

theorem C10_default_output_path:
  "(map ascii_lower ext = ''.json'' \<longrightarrow>
      outputPath resolve (stem @ ext) [] = resolve (stem @ ''.pdf''))
   \<and> (\<not> ends_with_dot_json p0 \<longrightarrow> outputPath resolve p0 [] = inputPath resolve p0)
   \<and> (\<not> ends_with_dot_json p0 \<and> positionals args = [p0] \<and> written (script s args) = Some w \<longrightarrow>
        w = inputPath (sys_resolve s) p0)"
proof (intro conjI impI)
  assume "map ascii_lower ext = ''.json''"
  then show "outputPath resolve (stem @ ext) [] = resolve (stem @ ''.pdf'')"
    by (simp add: outputPath_def replace_json_ext_suffix)
next
  assume "\<not> ends_with_dot_json p0"
  then show "outputPath resolve p0 [] = inputPath resolve p0"
    by (simp add: outputPath_def inputPath_def replace_json_ext_other)
next
  assume a: "\<not> ends_with_dot_json p0 \<and> positionals args = [p0] \<and> written (script s args) = Some w"
  then have "w = outputPath (sys_resolve s) p0 []"
    using written_script [of s args w] by simp
  with a show "w = inputPath (sys_resolve s) p0"
    by (simp add: outputPath_def inputPath_def replace_json_ext_other)
qed

theorem C10_default_output_path_witness:
  "outputPath (\<lambda>p. ''/work/'' @ p) ''Resume.JSON'' [] = ''/work/Resume.pdf''
   \<and> outputPath (\<lambda>p. ''/work/'' @ p) ''resume.txt'' [] = inputPath (\<lambda>p. ''/work/'' @ p) ''resume.txt''
   \<and> written (script (example_sys example_resume) txt_cli) = Some ''/work/resume.txt''
   \<and> inputPath (sys_resolve (example_sys example_resume)) ''resume.txt'' = ''/work/resume.txt''"
proof -
  have l: "map ascii_lower ''.JSON'' = ''.json''"
    by (simp add: lower_j lower_s lower_o lower_n lower_dot)
  have n: "\<not> ends_with_dot_json ''resume.txt''"
    by (simp add: ends_with_dot_json_iff matches_dot_json_def)
  have r: "sys_readJson (example_sys example_resume)
      (inputPath (sys_resolve (example_sys example_resume)) ''resume.txt'') = Some example_resume"
    by (simp add: example_sys_def inputPath_def)
  have o: "outputPath (sys_resolve (example_sys example_resume)) ''resume.txt'' [] = ''/work/resume.txt''"
    by (simp add: example_sys_def outputPath_def replace_json_ext_def matches_dot_json_def Let_def)
  have w: "written (script (example_sys example_resume) txt_cli) = Some ''/work/resume.txt''"
    by (simp add: script_def txt_cli_def truthy_def Let_def r o example_main example_with_browser)
  have i: "inputPath (sys_resolve (example_sys example_resume)) ''resume.txt'' = ''/work/resume.txt''"
    by (simp add: example_sys_def inputPath_def)
  have p: "positionals txt_cli = [''resume.txt'']"
    by (simp add: txt_cli_def)
  show ?thesis
    using C10_default_output_path [of "''.JSON''" "\<lambda>p. ''/work/'' @ p" "''Resume''"
        "''resume.txt''" txt_cli "example_sys example_resume" "''/work/resume.txt''"] l n w i p
    by simp
qed

end
